theory Spec2Isabelle
  imports Main "HOL-Library.Sublist"
begin

section \<open>Route matching\<close>

text \<open>
  The handler built by \<open>New\<close> matches the request URI against the regular expression
  \<^verbatim>\<open>(.*)(index\.html|doc\.json|...|swagger-ui-standalone-preset\.js\.map)[?|.]*\<close>
  with \<open>regexp.FindStringSubmatch\<close>.  Go's \<open>regexp\<close> package is not part of the
  repository; the functions below give the pattern its documented meaning: the match
  begins as early as possible in the input, and among the matches beginning there it is
  the one a backtracking engine finds first (greedy repetition tries the longest
  repetition first, an alternation tries its branches from left to right).

  Strings are byte lists.  Every literal of the pattern is ASCII and \<open>.\<close> accepts every
  character except the line feed, so matching bytes and matching UTF-8 characters
  delimit the same groups.
\<close>

text \<open>The alternatives of the second group, in the order of the pattern.\<close>

definition assets :: "string list" where
  "assets =
    [''index.html'', ''doc.json'', ''favicon-16x16.png'', ''favicon-32x32.png'',
     ''/oauth2-redirect.html'',
     ''swagger-ui.css'', ''swagger-ui.css.map'',
     ''swagger-ui.js'', ''swagger-ui.js.map'',
     ''swagger-ui-bundle.js'', ''swagger-ui-bundle.js.map'',
     ''swagger-ui-standalone-preset.js'', ''swagger-ui-standalone-preset.js.map'']"

text \<open>An alternation: the first branch, from the left, that matches at the position.\<close>

fun match_alternation :: "string list \<Rightarrow> string \<Rightarrow> string option" where
  "match_alternation [] s = None"
| "match_alternation (a # as) s = (if prefix a s then Some a else match_alternation as s)"

text \<open>The character class \<^verbatim>\<open>[?|.]\<close>.\<close>

definition tail_class :: "char \<Rightarrow> bool" where
  "tail_class c \<longleftrightarrow> c = CHR ''?'' \<or> c = CHR ''|'' \<or> c = CHR ''.''"

text \<open>
  The pattern after its first group, at a position where the first group has consumed
  \<open>g1\<close> and \<open>s\<close> remains: the alternation, then the greedy \<^verbatim>\<open>[?|.]*\<close>, which cannot
  fail.  The result is the slice \<open>FindStringSubmatch\<close> returns: the whole match, the
  first group, the second group.
\<close>

definition match_rest :: "string \<Rightarrow> string \<Rightarrow> string list option" where
  "match_rest g1 s =
     (case match_alternation assets s of
        None \<Rightarrow> None
      | Some a \<Rightarrow> Some [g1 @ a @ takeWhile tail_class (drop (length a) s), g1, a])"

text \<open>
  The greedy \<^verbatim>\<open>(.*)\<close>: consume one more character (any but the line feed) and match
  the rest of the pattern; where that fails, match the rest of the pattern here.
\<close>

fun dot_star :: "string \<Rightarrow> string \<Rightarrow> string list option" where
  "dot_star g1 [] = match_rest g1 []"
| "dot_star g1 (c # cs) =
     (if c = CHR 0x0A then match_rest g1 (c # cs)
      else (case dot_star (g1 @ [c]) cs of
              Some m \<Rightarrow> Some m
            | None \<Rightarrow> match_rest g1 (c # cs)))"

text \<open>The unanchored search: the leftmost start position that has a match.\<close>

fun search :: "string \<Rightarrow> string list option" where
  "search [] = dot_star [] []"
| "search (c # cs) =
     (case dot_star [] (c # cs) of
        Some m \<Rightarrow> Some m
      | None \<Rightarrow> search cs)"

text \<open>\<open>matcher.FindStringSubmatch\<close>: the nil slice when nothing matches.\<close>

definition FindStringSubmatch :: "string \<Rightarrow> string list" where
  "FindStringSubmatch s = (case search s of None \<Rightarrow> [] | Some m \<Rightarrow> m)"

section \<open>Data model\<close>

text \<open>A non-nil Go \<open>error\<close>, or the value of a panic.\<close>

datatype go_error = Error string

text \<open>
  \<open>webdav.Handler\<close> (package \<open>golang.org/x/net/webdav\<close>), as far as the handler uses
  it: the \<open>Prefix\<close> field and \<open>FileSystem.OpenFile\<close>.  An opened file is represented by
  what reading it to the end yields, its bytes or an error.
\<close>

type_synonym webdav_File = "go_error + string"

record webdav_Handler =
  Prefix :: string
  FileSystem :: "string \<Rightarrow> go_error + webdav_File"

text \<open>\<open>Oauth2RedirectURL\<close> has the type \<open>template.JS\<close>, a string.\<close>

record swaggerConfig =
  URL :: string
  DocExpansion :: string
  Title :: string
  Oauth2RedirectURL :: string
  DefaultModelsExpandDepth :: int
  DeepLinking :: bool
  PersistAuthorization :: bool
  Oauth2DefaultClientID :: string

text \<open>\<open>Handler\<close> is a pointer: \<open>None\<close> is \<open>nil\<close>.\<close>

record Config =
  URL :: string
  DocExpansion :: string
  InstanceName :: string
  Title :: string
  DefaultModelsExpandDepth :: int
  DeepLinking :: bool
  PersistAuthorization :: bool
  Oauth2DefaultClientID :: string
  Handler :: "webdav_Handler option"

text \<open>
  What the imported packages supply.  None of it is under the repository's sources, so
  it is a parameter of the model:
  \<^item> \<open>swag.Name\<close> and \<open>swag.ReadDoc\<close>, the document registry;
  \<^item> \<open>swaggerFiles.Handler\<close>, the shared static-file provider;
  \<^item> the escapers that \<open>html/template\<close> applies to the value of an action, by the
    context of the action: inside \<^verbatim>\<open><title>\<close>, inside a double-quoted JavaScript string,
    and in the position of a JavaScript expression (for a \<open>bool\<close> and for an \<open>int\<close>);
  \<^item> whether \<open>frame.Context.Write\<close> reports an error for the bytes it is given.
\<close>

record packages =
  swag_Name :: string
  swag_ReadDoc :: "string \<Rightarrow> go_error + string"
  swaggerFiles_Handler :: webdav_Handler
  rcdataEscaper :: "string \<Rightarrow> string"
  jsStrEscaper :: "string \<Rightarrow> string"
  jsValEscaper_bool :: "bool \<Rightarrow> string"
  jsValEscaper_int :: "int \<Rightarrow> string"
  Write_error :: "string \<Rightarrow> go_error option"

definition toSwaggerConfig :: "Config \<Rightarrow> swaggerConfig" where
  \<open>toSwaggerConfig config =
     \<lparr>swaggerConfig.URL = URL config,
      swaggerConfig.DocExpansion = DocExpansion config,
      swaggerConfig.Title = Title config,
      swaggerConfig.Oauth2RedirectURL =
        ''`${window.location.protocol}//${window.location.host}$'' @
        ''{window.location.pathname.split(\'/\').slice(0, window.location.pathname.split(\'/\').length - 1).join(\'/\')}'' @
        ''/oauth2-redirect.html`'',
      swaggerConfig.DefaultModelsExpandDepth = DefaultModelsExpandDepth config,
      swaggerConfig.DeepLinking = DeepLinking config,
      swaggerConfig.PersistAuthorization = PersistAuthorization config,
      swaggerConfig.Oauth2DefaultClientID = Oauth2DefaultClientID config\<rparr>\<close>

definition defaultConfig :: "packages \<Rightarrow> Config" where
  "defaultConfig w =
     \<lparr>URL = ''doc.json'',
      DocExpansion = ''list'',
      InstanceName = swag_Name w,
      Title = ''Swagger UI'',
      DefaultModelsExpandDepth = 1,
      DeepLinking = True,
      PersistAuthorization = False,
      Oauth2DefaultClientID = [],
      Handler = None\<rparr>"

section \<open>The index template\<close>

text \<open>
  \<open>swaggerIndexTpl\<close>, cut at its eight actions: \<open>swaggerIndexTpl_0\<close> is the text before
  the first action, \<open>swaggerIndexTpl_8\<close> the text after the last one.
\<close>

definition swaggerIndexTpl_0 :: string where
  \<open>swaggerIndexTpl_0 =
    concat
     [''<!-- HTML for static distribution bundle build -->\<newline>'',
      ''<!DOCTYPE html>\<newline>'',
      ''<html lang="en">\<newline>'',
      ''<head>\<newline>'',
      ''  <meta charset="UTF-8">\<newline>'',
      ''  <title>'']\<close>

text \<open>Here the template has the action \<^verbatim>\<open>{{.Title}}\<close>.\<close>

definition swaggerIndexTpl_1 :: string where
  \<open>swaggerIndexTpl_1 =
    concat
     [''</title>\<newline>'',
      ''  <link href="https://fonts.googleapis.com/css?family=Open+Sans:400,700|Source+Code+Pro:300,600|Titillium+Web:400,600,700" rel="stylesheet">\<newline>'',
      ''  <link rel="stylesheet" type="text/css" href="./swagger-ui.css" >\<newline>'',
      ''  <link rel="icon" type="image/png" href="./favicon-32x32.png" sizes="32x32" />\<newline>'',
      ''  <link rel="icon" type="image/png" href="./favicon-16x16.png" sizes="16x16" />\<newline>'',
      ''  <style>\<newline>'',
      ''    html\<newline>'',
      ''    {\<newline>'',
      ''        box-sizing: border-box;\<newline>'',
      ''        overflow: -moz-scrollbars-vertical;\<newline>'',
      ''        overflow-y: scroll;\<newline>'',
      ''    }\<newline>'',
      ''    *,\<newline>'',
      ''    *:before,\<newline>'',
      ''    *:after\<newline>'',
      ''    {\<newline>'',
      ''        box-sizing: inherit;\<newline>'',
      ''    }\<newline>'',
      ''\<newline>'',
      ''    body {\<newline>'',
      ''      margin:0;\<newline>'',
      ''      background: #fafafa;\<newline>'',
      ''    }\<newline>'',
      ''  </style>\<newline>'',
      ''</head>\<newline>'',
      ''\<newline>'',
      ''<body>\<newline>'',
      ''\<newline>'',
      ''<svg xmlns="http://www.w3.org/2000/svg" xmlns:xlink="http://www.w3.org/1999/xlink" style="position:absolute;width:0;height:0">\<newline>'',
      ''  <defs>\<newline>'',
      ''    <symbol viewBox="0 0 20 20" id="unlocked">\<newline>'',
      ''          <path d="M15.8 8H14V5.6C14 2.703 12.665 1 10 1 7.334 1 6 2.703 6 5.6V6h2v-.801C8 3.754 8.797 3 10 3c1.203 0 2 .754 2 2.199V8H4c-.553 0-1 .646-1 1.199V17c0 .549.428 1.139.951 1.307l1.197.387C5.672 18.861 6.55 19 7.1 19h5.8c.549 0 1.428-.139 1.951-.307l1.196-.387c.524-.167.953-.757.953-1.306V9.199C17 8.646 16.352 8 15.8 8z"></path>\<newline>'',
      ''    </symbol>\<newline>'',
      ''\<newline>'',
      ''    <symbol viewBox="0 0 20 20" id="locked">\<newline>'',
      ''      <path d="M15.8 8H14V5.6C14 2.703 12.665 1 10 1 7.334 1 6 2.703 6 5.6V8H4c-.553 0-1 .646-1 1.199V17c0 .549.428 1.139.951 1.307l1.197.387C5.672 18.861 6.55 19 7.1 19h5.8c.549 0 1.428-.139 1.951-.307l1.196-.387c.524-.167.953-.757.953-1.306V9.199C17 8.646 16.352 8 15.8 8zM12 8H8V5.199C8 3.754 8.797 3 10 3c1.203 0 2 .754 2 2.199V8z"/>\<newline>'',
      ''    </symbol>\<newline>'',
      ''\<newline>'',
      ''    <symbol viewBox="0 0 20 20" id="close">\<newline>'',
      ''      <path d="M14.348 14.849c-.469.469-1.229.469-1.697 0L10 11.819l-2.651 3.029c-.469.469-1.229.469-1.697 0-.469-.469-.469-1.229 0-1.697l2.758-3.15-2.759-3.152c-.469-.469-.469-1.228 0-1.697.469-.469 1.228-.469 1.697 0L10 8.183l2.651-3.031c.469-.469 1.228-.469 1.697 0 .469.469.469 1.229 0 1.697l-2.758 3.152 2.758 3.15c.469.469.469 1.229 0 1.698z"/>\<newline>'',
      ''    </symbol>\<newline>'',
      ''\<newline>'',
      ''    <symbol viewBox="0 0 20 20" id="large-arrow">\<newline>'',
      ''      <path d="M13.25 10L6.109 2.58c-.268-.27-.268-.707 0-.979.268-.27.701-.27.969 0l7.83 7.908c.268.271.268.709 0 .979l-7.83 7.908c-.268.271-.701.27-.969 0-.268-.269-.268-.707 0-.979L13.25 10z"/>\<newline>'',
      ''    </symbol>\<newline>'',
      ''\<newline>'',
      ''    <symbol viewBox="0 0 20 20" id="large-arrow-down">\<newline>'',
      ''      <path d="M17.418 6.109c.272-.268.709-.268.979 0s.271.701 0 .969l-7.908 7.83c-.27.268-.707.268-.979 0l-7.908-7.83c-.27-.268-.27-.701 0-.969.271-.268.709-.268.979 0L10 13.25l7.418-7.141z"/>\<newline>'',
      ''    </symbol>\<newline>'',
      ''\<newline>'',
      ''\<newline>'',
      ''    <symbol viewBox="0 0 24 24" id="jump-to">\<newline>'',
      ''      <path d="M19 7v4H5.83l3.58-3.59L8 6l-6 6 6 6 1.41-1.41L5.83 13H21V7z"/>\<newline>'',
      ''    </symbol>\<newline>'',
      ''\<newline>'',
      ''    <symbol viewBox="0 0 24 24" id="expand">\<newline>'',
      ''      <path d="M10 18h4v-2h-4v2zM3 6v2h18V6H3zm3 7h12v-2H6v2z"/>\<newline>'',
      ''    </symbol>\<newline>'',
      ''\<newline>'',
      ''  </defs>\<newline>'',
      ''</svg>\<newline>'',
      ''\<newline>'',
      ''<div id="swagger-ui"></div>\<newline>'',
      ''\<newline>'',
      ''<script src="./swagger-ui-bundle.js"> </script>\<newline>'',
      ''<script src="./swagger-ui-standalone-preset.js"> </script>\<newline>'',
      ''<script>\<newline>'',
      ''window.onload = function() {\<newline>'',
      ''  // Build a system\<newline>'',
      ''  const ui = SwaggerUIBundle({\<newline>'',
      ''    url: "'']\<close>

text \<open>Here the template has the action \<^verbatim>\<open>{{.URL}}\<close>.\<close>

definition swaggerIndexTpl_2 :: string where
  \<open>swaggerIndexTpl_2 =
    concat
     [''",\<newline>'',
      ''    dom_id: \'#swagger-ui\',\<newline>'',
      ''    validatorUrl: null,\<newline>'',
      ''    oauth2RedirectUrl: '']\<close>

text \<open>Here the template has the action \<^verbatim>\<open>{{.Oauth2RedirectURL}}\<close>.\<close>

definition swaggerIndexTpl_3 :: string where
  \<open>swaggerIndexTpl_3 =
    concat
     ['',\<newline>'',
      ''    persistAuthorization: '']\<close>

text \<open>Here the template has the action \<^verbatim>\<open>{{.PersistAuthorization}}\<close>.\<close>

definition swaggerIndexTpl_4 :: string where
  \<open>swaggerIndexTpl_4 =
    concat
     ['',\<newline>'',
      ''    presets: [\<newline>'',
      ''      SwaggerUIBundle.presets.apis,\<newline>'',
      ''      SwaggerUIStandalonePreset\<newline>'',
      ''    ],\<newline>'',
      ''    plugins: [\<newline>'',
      ''      SwaggerUIBundle.plugins.DownloadUrl\<newline>'',
      ''    ],\<newline>'',
      ''	layout: "StandaloneLayout",\<newline>'',
      ''    docExpansion: "'']\<close>

text \<open>Here the template has the action \<^verbatim>\<open>{{.DocExpansion}}\<close>.\<close>

definition swaggerIndexTpl_5 :: string where
  \<open>swaggerIndexTpl_5 =
    concat
     [''",\<newline>'',
      ''	deepLinking: '']\<close>

text \<open>Here the template has the action \<^verbatim>\<open>{{.DeepLinking}}\<close>.\<close>

definition swaggerIndexTpl_6 :: string where
  \<open>swaggerIndexTpl_6 =
    concat
     ['',\<newline>'',
      ''	defaultModelsExpandDepth: '']\<close>

text \<open>Here the template has the action \<^verbatim>\<open>{{.DefaultModelsExpandDepth}}\<close>.\<close>

definition swaggerIndexTpl_7 :: string where
  \<open>swaggerIndexTpl_7 =
    concat
     [''\<newline>'',
      ''  })\<newline>'',
      ''\<newline>'',
      ''  const defaultClientId = "'']\<close>

text \<open>Here the template has the action \<^verbatim>\<open>{{.Oauth2DefaultClientID}}\<close>.\<close>

definition swaggerIndexTpl_8 :: string where
  \<open>swaggerIndexTpl_8 =
    concat
     [''";\<newline>'',
      ''  if (defaultClientId) {\<newline>'',
      ''    ui.initOAuth({\<newline>'',
      ''      clientId: defaultClientId\<newline>'',
      ''    })\<newline>'',
      ''  }\<newline>'',
      ''\<newline>'',
      ''  window.ui = ui\<newline>'',
      ''}\<newline>'',
      ''</script>\<newline>'',
      ''</body>\<newline>'',
      ''\<newline>'',
      ''</html>\<newline>'']\<close>


text \<open>
  \<open>index.Execute\<close> on the template parsed from \<open>swaggerIndexTpl\<close>: the text of the
  template with the value of each action put through the escaper of the action's context.
  \<open>Oauth2RedirectURL\<close> is a \<open>template.JS\<close>, which the engine emits unchanged in the
  position of a JavaScript expression.
\<close>

definition index_Execute :: "packages \<Rightarrow> swaggerConfig \<Rightarrow> string" where
  "index_Execute w d =
     swaggerIndexTpl_0 @ rcdataEscaper w (swaggerConfig.Title d) @
     swaggerIndexTpl_1 @ jsStrEscaper w (swaggerConfig.URL d) @
     swaggerIndexTpl_2 @ swaggerConfig.Oauth2RedirectURL d @
     swaggerIndexTpl_3 @ jsValEscaper_bool w (swaggerConfig.PersistAuthorization d) @
     swaggerIndexTpl_4 @ jsStrEscaper w (swaggerConfig.DocExpansion d) @
     swaggerIndexTpl_5 @ jsValEscaper_bool w (swaggerConfig.DeepLinking d) @
     swaggerIndexTpl_6 @ jsValEscaper_int w (swaggerConfig.DefaultModelsExpandDepth d) @
     swaggerIndexTpl_7 @ jsStrEscaper w (swaggerConfig.Oauth2DefaultClientID d) @
     swaggerIndexTpl_8"

section \<open>Requests and responses\<close>

text \<open>
  What the handler reads of a request: the method, \<open>ctx.Request.URI().String()\<close> and
  \<open>ctx.Param("any")\<close>, the wildcard segment of the route (empty when the route has none).
\<close>

record request =
  Method :: string
  URI :: string
  Param_any :: string

text \<open>
  Modelled from the spec: \<open>frame.Context\<close>, of the package \<open>github.com/oarkflow/frame\<close>,
  is missing from the sources.  The response it builds has a status code (200 until one
  is set), headers and a body; a handler may abort the handler chain.
\<close>

record Context =
  StatusCode :: nat
  Headers :: "string \<rightharpoonup> string"
  Body :: string
  Aborted :: bool

definition new_Context :: Context where
  "new_Context = \<lparr>StatusCode = 200, Headers = Map.empty, Body = [], Aborted = False\<rparr>"

text \<open>Modelled from the spec: \<open>ctx.AbortWithStatus\<close> sets the status and aborts.\<close>

definition AbortWithStatus :: "nat \<Rightarrow> Context \<Rightarrow> Context" where
  "AbortWithStatus code ctx = ctx\<lparr>StatusCode := code, Aborted := True\<rparr>"

text \<open>
  Modelled from the spec: \<open>ctx.String\<close> sets the status and writes the text as the body.
  The headers the framework adds of its own accord are not modelled.
\<close>

definition ctx_String :: "nat \<Rightarrow> string \<Rightarrow> Context \<Rightarrow> Context" where
  "ctx_String code text ctx = ctx\<lparr>StatusCode := code, Body := Body ctx @ text\<rparr>"

text \<open>Modelled from the spec: \<open>ctx.Header\<close> sets a response header.\<close>

definition ctx_Header :: "string \<Rightarrow> string \<Rightarrow> Context \<Rightarrow> Context" where
  "ctx_Header key v ctx = ctx\<lparr>Headers := (Headers ctx)(key \<mapsto> v)\<rparr>"

text \<open>
  Modelled from the spec: \<open>ctx.Write\<close> appends the bytes to the body, or reports an
  error and leaves the body as it was.
\<close>

definition ctx_Write :: "packages \<Rightarrow> string \<Rightarrow> Context \<Rightarrow> Context \<times> go_error option" where
  "ctx_Write w p ctx =
     (case Write_error w p of
        None \<Rightarrow> (ctx\<lparr>Body := Body ctx @ p\<rparr>, None)
      | Some err \<Rightarrow> (ctx, Some err))"

text \<open>The constants of \<open>net/http\<close> and \<open>consts\<close> that the handler names.\<close>

definition MethodGet :: string where
  "MethodGet = ''GET''"

definition StatusMethodNotAllowed :: nat where
  "StatusMethodNotAllowed = 405"

definition StatusNotFound :: nat where
  "StatusNotFound = 404"

definition StatusInternalServerError :: nat where
  "StatusInternalServerError = 500"

definition StatusText :: "nat \<Rightarrow> string" where
  "StatusText code =
     (if code = 404 then ''Not Found''
      else if code = 405 then ''Method Not Allowed''
      else if code = 500 then ''Internal Server Error''
      else if code = 200 then ''OK''
      else [])"

text \<open>
  \<open>filepath.Ext\<close>: the suffix of the path that begins at the last dot of its last
  element, empty when that element has no dot.  The loop walks from the end of the path
  to the first separator; \<open>ext_loop\<close> takes the part of the path still to be visited,
  reversed, and the part already visited.
\<close>

fun ext_loop :: "string \<Rightarrow> string \<Rightarrow> string" where
  "ext_loop [] visited = []"
| "ext_loop (c # cs) visited =
     (if c = CHR ''/'' then []
      else if c = CHR ''.'' then c # visited
      else ext_loop cs (c # visited))"

definition Ext :: "string \<Rightarrow> string" where
  "Ext path = ext_loop (rev path) []"

section \<open>The handler\<close>

text \<open>
  The handler's calls to its collaborators, in the order it makes them:
  \<open>matcher.FindStringSubmatch\<close>, the assignment to \<open>config.Handler.Prefix\<close>,
  \<open>index.Execute\<close>, \<open>swag.ReadDoc\<close>, \<open>FileSystem.OpenFile\<close>, \<open>buf.ReadFrom\<close> and
  \<open>ctx.Write\<close>.
\<close>

datatype event =
    RouteMatch string
  | PrefixWrite string
  | TemplateRender swaggerConfig
  | DocLookup string
  | FileOpen string
  | FileRead string
  | BodyWrite string

text \<open>
  What the function returned by \<open>New\<close> closes over: the configuration, which it reaches
  through a pointer and updates, and the \<open>sync.Once\<close>.
\<close>

record closure =
  config :: Config
  once_done :: bool

text \<open>What one call of the handler leaves behind.\<close>

record result =
  next_closure :: closure
  response :: Context
  calls :: "event list"

text \<open>
  \<open>New\<close>.  The variadic argument is a list of pointers; a \<open>nil\<close> first pointer makes the
  first field access panic.
\<close>

definition New :: "packages \<Rightarrow> Config option list \<Rightarrow> go_error + closure" where
  "New w cfg =
     (case (case cfg of c # _ \<Rightarrow> c | [] \<Rightarrow> Some (defaultConfig w)) of
        None \<Rightarrow> Inl (Error ''nil pointer dereference'')
      | Some c0 \<Rightarrow>
          let c1 = (if URL c0 = [] then c0\<lparr>URL := ''doc.json''\<rparr> else c0);
              c2 = (if DocExpansion c1 = [] then c1\<lparr>DocExpansion := ''list''\<rparr> else c1);
              c3 = (if InstanceName c2 = [] then c2\<lparr>InstanceName := swag_Name w\<rparr> else c2);
              c4 = (if Title c3 = [] then c3\<lparr>Title := ''Swagger UI''\<rparr> else c3);
              c5 = (if DefaultModelsExpandDepth c4 = 0
                    then c4\<lparr>DefaultModelsExpandDepth := 1\<rparr> else c4);
              c6 = (if Handler c5 = None
                    then c5\<lparr>Handler := Some (swaggerFiles_Handler w)\<rparr> else c5)
          in Inr \<lparr>config = c6, once_done = False\<rparr>)"

text \<open>Lines 117 to 122: the leaf.\<close>

definition derive_path :: "request \<Rightarrow> string list \<Rightarrow> string" where
  "derive_path r matches = (if Param_any r \<noteq> [] then matches ! 2 else ''index.html'')"

text \<open>Lines 123 to 128: the prefix.\<close>

definition derive_prefix :: "request \<Rightarrow> string list \<Rightarrow> string" where
  "derive_prefix r matches = (if length matches \<noteq> 3 then URI r else matches ! 1)"

text \<open>
  \<open>once.Do\<close> with the function that assigns \<open>config.Handler.Prefix\<close>: it runs the
  function on the first call only.  A \<open>nil\<close> \<open>config.Handler\<close> makes the assignment panic.
\<close>

definition once_Do :: "closure \<Rightarrow> string \<Rightarrow> go_error + closure \<times> event list" where
  "once_Do s pre =
     (if once_done s then Inr (s, [])
      else (case Handler (config s) of
              None \<Rightarrow> Inl (Error ''nil pointer dereference'')
            | Some h \<Rightarrow>
                Inr (s\<lparr>config := (config s)\<lparr>Handler := Some (h\<lparr>Prefix := pre\<rparr>)\<rparr>,
                       once_done := True\<rparr>,
                     [PrefixWrite pre])))"

text \<open>The switch on \<open>filepath.Ext(path)\<close>.\<close>

definition content_type :: "string \<Rightarrow> string option" where
  "content_type ext =
     (if ext = ''.html'' then Some ''text/html; charset=utf-8''
      else if ext = ''.css'' then Some ''text/css; charset=utf-8''
      else if ext = ''.js'' then Some ''application/javascript''
      else if ext = ''.png'' then Some ''image/png''
      else if ext = ''.json'' then Some ''application/json; charset=utf-8''
      else None)"

definition set_content_type :: "string \<Rightarrow> Context \<Rightarrow> Context" where
  "set_content_type path ctx =
     (case content_type (Ext path) of
        None \<Rightarrow> ctx
      | Some v \<Rightarrow> ctx_Header ''Content-Type'' v ctx)"

text \<open>
  The case \<open>index.html\<close>.  The engine writes the rendered text to \<open>ctx\<close>; the handler drops
  the error of \<open>Execute\<close>.  The writes of the engine are taken as one \<open>ctx.Write\<close>.
\<close>

definition serve_index :: "packages \<Rightarrow> closure \<Rightarrow> Context \<Rightarrow> Context \<times> event list" where
  "serve_index w s ctx =
     (let d = toSwaggerConfig (config s)
      in (fst (ctx_Write w (index_Execute w d) ctx), [TemplateRender d]))"

text \<open>The case \<open>doc.json\<close>.\<close>

definition serve_doc :: "packages \<Rightarrow> closure \<Rightarrow> Context \<Rightarrow> Context \<times> event list" where
  "serve_doc w s ctx =
     (let name = InstanceName (config s)
      in case swag_ReadDoc w name of
           Inl err \<Rightarrow> (AbortWithStatus StatusInternalServerError ctx, [DocLookup name])
         | Inr doc \<Rightarrow>
             (case ctx_Write w doc ctx of
                (ctx', Some err) \<Rightarrow>
                  (AbortWithStatus StatusInternalServerError ctx', [DocLookup name, BodyWrite doc])
              | (ctx', None) \<Rightarrow> (ctx', [DocLookup name, BodyWrite doc])))"

text \<open>The default case: a file of the static-file provider.\<close>

definition serve_file :: "packages \<Rightarrow> webdav_Handler \<Rightarrow> string \<Rightarrow> Context \<Rightarrow> Context \<times> event list" where
  "serve_file w h path ctx =
     (case FileSystem h path of
        Inl err \<Rightarrow> (AbortWithStatus StatusInternalServerError ctx, [FileOpen path])
      | Inr f \<Rightarrow>
          (case f of
             Inl err \<Rightarrow>
               (AbortWithStatus StatusInternalServerError ctx, [FileOpen path, FileRead path])
           | Inr buf \<Rightarrow>
               (case ctx_Write w buf ctx of
                  (ctx', Some err) \<Rightarrow>
                    (AbortWithStatus StatusInternalServerError ctx',
                     [FileOpen path, FileRead path, BodyWrite buf])
                | (ctx', None) \<Rightarrow> (ctx', [FileOpen path, FileRead path, BodyWrite buf]))))"

text \<open>The function that \<open>New\<close> returns, on a fresh context.\<close>

definition handler :: "packages \<Rightarrow> closure \<Rightarrow> request \<Rightarrow> go_error + result" where
  "handler w s r =
     (if Method r \<noteq> MethodGet then
        Inr \<lparr>next_closure = s,
             response = AbortWithStatus StatusMethodNotAllowed new_Context,
             calls = []\<rparr>
      else
        let matches = FindStringSubmatch (URI r) in
        if length matches \<noteq> 3 \<and> Param_any r \<noteq> [] then
          Inr \<lparr>next_closure = s,
               response = ctx_String StatusNotFound (StatusText StatusNotFound) new_Context,
               calls = [RouteMatch (URI r)]\<rparr>
        else
          let path = derive_path r matches;
              pre = derive_prefix r matches
          in case once_Do s pre of
               Inl err \<Rightarrow> Inl err
             | Inr (s', once_calls) \<Rightarrow>
                 let ctx = set_content_type path new_Context in
                 if path = ''index.html'' then
                   (case serve_index w s' ctx of
                      (ctx', cs) \<Rightarrow>
                        Inr \<lparr>next_closure = s', response = ctx',
                             calls = RouteMatch (URI r) # once_calls @ cs\<rparr>)
                 else if path = ''doc.json'' then
                   (case serve_doc w s' ctx of
                      (ctx', cs) \<Rightarrow>
                        Inr \<lparr>next_closure = s', response = ctx',
                             calls = RouteMatch (URI r) # once_calls @ cs\<rparr>)
                 else
                   (case Handler (config s') of
                      None \<Rightarrow> Inl (Error ''nil pointer dereference'')
                    | Some h \<Rightarrow>
                        (case serve_file w h path ctx of
                           (ctx', cs) \<Rightarrow>
                             Inr \<lparr>next_closure = s', response = ctx',
                                  calls = RouteMatch (URI r) # once_calls @ cs\<rparr>)))"

text \<open>A sequence of requests, each served in the state its predecessor left.\<close>

fun serve_all :: "packages \<Rightarrow> closure \<Rightarrow> request list \<Rightarrow> go_error + closure" where
  "serve_all w s [] = Inr s"
| "serve_all w s (r # rs) =
     (case handler w s r of
        Inl err \<Rightarrow> Inl err
      | Inr res \<Rightarrow> serve_all w (next_closure res) rs)"

section \<open>Notions used in the statements\<close>

text \<open>The request passes the method check and the route check.\<close>

definition served :: "request \<Rightarrow> bool" where
  "served r \<longleftrightarrow>
     Method r = MethodGet \<and>
     \<not> (length (FindStringSubmatch (URI r)) \<noteq> 3 \<and> Param_any r \<noteq> [])"

text \<open>The leaf and the prefix that the handler derives for a request.\<close>

definition leaf :: "request \<Rightarrow> string" where
  "leaf r = derive_path r (FindStringSubmatch (URI r))"

definition route_prefix :: "request \<Rightarrow> string" where
  "route_prefix r = derive_prefix r (FindStringSubmatch (URI r))"

text \<open>\<open>config.Handler.Prefix\<close> after a sequence of requests.\<close>

definition Prefix_after :: "packages \<Rightarrow> closure \<Rightarrow> request list \<Rightarrow> string option" where
  "Prefix_after w s rs =
     (case serve_all w s rs of
        Inl err \<Rightarrow> None
      | Inr s' \<Rightarrow> map_option Prefix (Handler (config s')))"

text \<open>The body of the response to a request; \<open>None\<close> when the handler panics.\<close>

definition body_of :: "packages \<Rightarrow> closure \<Rightarrow> request \<Rightarrow> string option" where
  "body_of w s r =
     (case handler w s r of
        Inl err \<Rightarrow> None
      | Inr res \<Rightarrow> Some (Body (response res)))"

text \<open>\<open>strings.Contains\<close> on the body of the response.\<close>

definition body_contains :: "packages \<Rightarrow> closure \<Rightarrow> request \<Rightarrow> string \<Rightarrow> bool" where
  "body_contains w s r sub =
     (case body_of w s r of
        None \<Rightarrow> False
      | Some b \<Rightarrow> sublist sub b)"

text \<open>The closure after \<open>once.Do\<close>, when \<open>config.Handler\<close> points to \<open>h\<close>.\<close>

definition after_once :: "closure \<Rightarrow> webdav_Handler \<Rightarrow> string \<Rightarrow> closure" where
  "after_once s h p = (if once_done s then s
     else s\<lparr>config := (config s)\<lparr>Handler := Some (h\<lparr>Prefix := p\<rparr>)\<rparr>, once_done := True\<rparr>)"

section \<open>A concrete setting\<close>

text \<open>
  Decimal notation of an \<open>int\<close>, as \<open>strconv.Itoa\<close> and the JSON encoder print it.
\<close>

fun nat_digits :: "nat \<Rightarrow> string" where
  "nat_digits n =
     (if n < 10 then [''0123456789'' ! n]
      else nat_digits (n div 10) @ [''0123456789'' ! (n mod 10)])"

declare nat_digits.simps [simp del]

definition Itoa :: "int \<Rightarrow> string" where
  "Itoa i = (if i < 0 then CHR ''-'' # nat_digits (nat (- i)) else nat_digits (nat i))"

text \<open>
  One instance of the packages.  The registry holds a document under the name
  \<open>swagger\<close>; the shared provider holds one file, \<open>swagger-ui.css\<close>; writes succeed.  The
  escapers are those of Go's \<open>html/template\<close> on the values used below: text without
  special characters is left as it is, and the JSON text of a value in the position of a
  JavaScript expression that starts or ends with a letter or a digit is set between two
  spaces, so that it cannot run into a neighbouring keyword.
\<close>

definition example_packages :: packages where
  "example_packages =
     \<lparr>swag_Name = ''swagger'',
      swag_ReadDoc = (\<lambda>name. if name = ''swagger'' then Inr ''{}'' else Inl (Error ''no such document'')),
      swaggerFiles_Handler =
        \<lparr>Prefix = [],
         FileSystem = (\<lambda>path. if path = ''swagger-ui.css'' then Inr (Inr ''body{margin:0}'')
                              else Inl (Error ''file does not exist''))\<rparr>,
      rcdataEscaper = (\<lambda>s. s),
      jsStrEscaper = (\<lambda>s. s),
      jsValEscaper_bool = (\<lambda>b. '' '' @ (if b then ''true'' else ''false'') @ '' ''),
      jsValEscaper_int = (\<lambda>i. '' '' @ Itoa i @ '' ''),
      Write_error = (\<lambda>p. None)\<rparr>"

text \<open>A provider that has no file at all, and a registry that has no document.\<close>

definition empty_packages :: packages where
  "empty_packages =
     example_packages
       \<lparr>swag_ReadDoc := (\<lambda>name. Inl (Error ''no such document'')),
        swaggerFiles_Handler :=
          \<lparr>Prefix = [], FileSystem = (\<lambda>path. Inl (Error ''file does not exist''))\<rparr>\<rparr>"

text \<open>The closures that \<open>New()\<close> builds in these two settings.\<close>

definition example_closure :: closure where
  "example_closure =
     \<lparr>config = (defaultConfig example_packages)
                 \<lparr>Handler := Some (swaggerFiles_Handler example_packages)\<rparr>,
      once_done = False\<rparr>"

definition empty_closure :: closure where
  "empty_closure =
     \<lparr>config = (defaultConfig empty_packages)
                 \<lparr>Handler := Some (swaggerFiles_Handler empty_packages)\<rparr>,
      once_done = False\<rparr>"

text \<open>A configuration that sets nothing, and the configuration of the rendering example.\<close>

definition zero_config :: Config where
  "zero_config =
     \<lparr>URL = [], DocExpansion = [], InstanceName = [], Title = [],
      DefaultModelsExpandDepth = 0, DeepLinking = False, PersistAuthorization = False,
      Oauth2DefaultClientID = [], Handler = None\<rparr>"

definition demo_config :: Config where
  "demo_config =
     zero_config\<lparr>URL := ''doc.json'', Title := ''Demo'', DefaultModelsExpandDepth := 1,
                 DeepLinking := True\<rparr>"

definition demo_closure :: closure where
  "demo_closure =
     \<lparr>config = demo_config
                 \<lparr>DocExpansion := ''list'', InstanceName := ''swagger'',
                  Handler := Some (swaggerFiles_Handler example_packages)\<rparr>,
      once_done = False\<rparr>"

text \<open>Requests.\<close>

definition get_index :: request where
  "get_index = \<lparr>Method = ''GET'', URI = ''/swagger/index.html'', Param_any = ''index.html''\<rparr>"

definition get_root :: request where
  "get_root = \<lparr>Method = ''GET'', URI = ''/swagger'', Param_any = []\<rparr>"

definition get_doc :: request where
  "get_doc = \<lparr>Method = ''GET'', URI = ''/docs/doc.json'', Param_any = ''doc.json''\<rparr>"

definition get_css :: request where
  "get_css = \<lparr>Method = ''GET'', URI = ''/swagger/swagger-ui.css'', Param_any = ''swagger-ui.css''\<rparr>"

definition get_css_map :: request where
  "get_css_map =
     \<lparr>Method = ''GET'', URI = ''/swagger/swagger-ui.css.map'', Param_any = ''swagger-ui.css.map''\<rparr>"


definition post_index :: request where
  "post_index = \<lparr>Method = ''POST'', URI = ''/swagger/index.html'', Param_any = ''index.html''\<rparr>"

definition get_index_a :: request where
  "get_index_a =
     \<lparr>Method = ''GET'', URI = ''http://a.example/swagger/index.html'', Param_any = ''index.html''\<rparr>"

definition get_index_b :: request where
  "get_index_b =
     \<lparr>Method = ''GET'', URI = ''https://b.example:8443/docs/index.html'', Param_any = ''index.html''\<rparr>"

section \<open>Properties of the handler\<close>

lemma once_Do_Some:
  "Handler (config s) = Some h \<Longrightarrow>
   once_Do s p = Inr (after_once s h p, if once_done s then [] else [PrefixWrite p])"
  by (simp add: once_Do_def after_once_def)

lemma after_once_fields:
  "InstanceName (config (after_once s h p)) = InstanceName (config s)"
  "toSwaggerConfig (config (after_once s h p)) = toSwaggerConfig (config s)"
  "once_done (after_once s h p)"
  by (simp_all add: after_once_def toSwaggerConfig_def)

lemma after_once_Handler:
  "Handler (config s) = Some h \<Longrightarrow>
   \<exists>h'. Handler (config (after_once s h p)) = Some h' \<and> FileSystem h' = FileSystem h"
  by (simp add: after_once_def)

lemma serve_index_Headers: "Headers (fst (serve_index w s ctx)) = Headers ctx"
  by (simp add: serve_index_def ctx_Write_def Let_def split: option.splits)

lemma serve_doc_Headers: "Headers (fst (serve_doc w s ctx)) = Headers ctx"
  by (simp add: serve_doc_def ctx_Write_def AbortWithStatus_def Let_def split: option.splits sum.splits)

lemma serve_file_Headers: "Headers (fst (serve_file w h path ctx)) = Headers ctx"
  by (simp add: serve_file_def ctx_Write_def AbortWithStatus_def split: option.splits sum.splits)

lemma serve_index_after_once:
  "serve_index w (after_once s h p) ctx = serve_index w s ctx"
  by (simp add: serve_index_def after_once_fields)

lemma serve_doc_after_once:
  "serve_doc w (after_once s h p) ctx = serve_doc w s ctx"
  by (simp add: serve_doc_def after_once_fields)

lemma serve_file_FileSystem:
  "FileSystem h' = FileSystem h \<Longrightarrow> serve_file w h' path ctx = serve_file w h path ctx"
  by (simp add: serve_file_def)

lemma handler_served:
  assumes "served r" and "Handler (config s) = Some h"
  shows "\<exists>res. handler w s r = Inr res \<and>
           next_closure res = after_once s h (route_prefix r) \<and>
           (\<exists>cs. (response res, cs) =
              (if leaf r = ''index.html''
                 then serve_index w s (set_content_type (leaf r) new_Context)
               else if leaf r = ''doc.json''
                 then serve_doc w s (set_content_type (leaf r) new_Context)
               else serve_file w h (leaf r)  (set_content_type (leaf r) new_Context)) \<and>
              calls res = RouteMatch (URI r) #
                (if once_done s then [] else [PrefixWrite (route_prefix r)]) @ cs)"
proof -
  from assms(1) have get: "Method r = MethodGet"
    and pass: "\<not> (length (FindStringSubmatch (URI r)) \<noteq> 3 \<and> Param_any r \<noteq> [])"
    by (simp_all add: served_def)
  from after_once_Handler [OF assms(2), of "route_prefix r"]
  obtain h' where h': "Handler (config (after_once s h (route_prefix r))) = Some h'"
    and fs: "FileSystem h' = FileSystem h"
    by blast
  show ?thesis
  proof (cases "leaf r = ''index.html''")
    case True
    with get pass assms(2) show ?thesis
      by (cases "serve_index w s (set_content_type ''index.html'' new_Context)")
         (auto simp add: handler_def Let_def once_Do_Some serve_index_after_once
            leaf_def [symmetric] route_prefix_def [symmetric])
  next
    case False
    note not_index = this
    show ?thesis
    proof (cases "leaf r = ''doc.json''")
      case True
      with get pass assms(2) not_index show ?thesis
        by (cases "serve_doc w s (set_content_type ''doc.json'' new_Context)")
           (auto simp add: handler_def Let_def once_Do_Some serve_doc_after_once
              leaf_def [symmetric] route_prefix_def [symmetric])
    next
      case False
      with get pass assms(2) not_index h' show ?thesis
        by (cases "serve_file w h (leaf r) (set_content_type (leaf r) new_Context)")
           (auto simp add: handler_def Let_def once_Do_Some serve_file_FileSystem [OF fs]
              leaf_def [symmetric] route_prefix_def [symmetric])
    qed
  qed
qed

lemma handler_served_Headers:
  assumes "served r" and "Handler (config s) = Some h"
  shows "\<exists>res. handler w s r = Inr res \<and>
           Headers (response res) = Headers (set_content_type (leaf r) new_Context)"
proof -
  from handler_served [OF assms, of w]
  obtain res cs where res: "handler w s r = Inr res"
    and disp: "(response res, cs) =
              (if leaf r = ''index.html''
                 then serve_index w s (set_content_type (leaf r) new_Context)
               else if leaf r = ''doc.json''
                 then serve_doc w s (set_content_type (leaf r) new_Context)
               else serve_file w h (leaf r)  (set_content_type (leaf r) new_Context))"
    by blast
  have "Headers (response res) = Headers (set_content_type (leaf r) new_Context)"
  proof (cases "leaf r = ''index.html''")
    case True
    with disp have "serve_index w s (set_content_type (leaf r) new_Context) = (response res, cs)"
      by simp
    from arg_cong [OF this, of fst] serve_index_Headers [of w s "set_content_type (leaf r) new_Context"]
    show ?thesis by simp
  next
    case False
    note ni = this
    show ?thesis
    proof (cases "leaf r = ''doc.json''")
      case True
      with disp ni have "serve_doc w s (set_content_type (leaf r) new_Context) = (response res, cs)"
        by simp
      from arg_cong [OF this, of fst] serve_doc_Headers [of w s "set_content_type (leaf r) new_Context"]
      show ?thesis by simp
    next
      case False
      with disp ni have "serve_file w h (leaf r) (set_content_type (leaf r) new_Context) = (response res, cs)"
        by simp
      from arg_cong [OF this, of fst] serve_file_Headers [of w h "leaf r" "set_content_type (leaf r) new_Context"]
      show ?thesis by simp
    qed
  qed
  with res show ?thesis by blast
qed

lemma New_example: "New example_packages [] = Inr example_closure"
  by (simp add: New_def example_closure_def defaultConfig_def example_packages_def Let_def)

lemma New_empty: "New empty_packages [] = Inr empty_closure"
  by (simp add: New_def empty_closure_def defaultConfig_def empty_packages_def
      example_packages_def Let_def)


lemma example_Handler:
  "Handler (config example_closure) = Some (swaggerFiles_Handler example_packages)"
  by (simp add: example_closure_def)

lemma empty_Handler:
  "Handler (config empty_closure) = Some (swaggerFiles_Handler empty_packages)"
  by (simp add: empty_closure_def)

section \<open>The claims\<close>

text \<open>
  C8.  A request whose method is not GET, on any path and in any state of the handler, is
  answered with status 405; the handler matches no route (it calls nothing), leaves its
  closure, and so the prefix of the provider, as it was, and writes no body.
\<close>

theorem non_get_is_405:
  assumes "Method r \<noteq> MethodGet"
  shows "handler w s r =
           Inr \<lparr>next_closure = s,
                response = \<lparr>StatusCode = 405, Headers = Map.empty, Body = [], Aborted = True\<rparr>,
                calls = []\<rparr>"
  using assms
  by (simp add: handler_def AbortWithStatus_def new_Context_def StatusMethodNotAllowed_def)

theorem non_get_is_405_witness:
  "Method post_index \<noteq> MethodGet \<and>
   handler example_packages example_closure post_index =
     Inr \<lparr>next_closure = example_closure,
          response = \<lparr>StatusCode = 405, Headers = Map.empty, Body = [], Aborted = True\<rparr>,
          calls = []\<rparr>"
proof -
  have m: "Method post_index \<noteq> MethodGet"
    by (simp add: post_index_def MethodGet_def)
  from m non_get_is_405 [OF m, of example_packages example_closure] show ?thesis
    by simp
qed



end
